theory Spec2Isabelle
  imports Main "HOL-Library.Sublist"
begin

section \<open>JSON values and Python's view of them\<close>

text \<open>
  The server exchanges JSON. A parsed JSON document is a Python value: \<open>None\<close>, a
  \<open>bool\<close>, an \<open>int\<close>, a \<open>str\<close>, a \<open>list\<close> or a \<open>dict\<close> with string keys. A
  \<open>dict\<close> keeps insertion order, so it is an association list (of distinct keys, when
  it comes from a parser); \<open>d.get(k)\<close> is \<open>map_of d k\<close>. Floating point numbers are
  left out: no function of the program computes with a number.
\<close>

datatype json =
    JNull
  | JBool bool
  | JInt int
  | JStr string
  | JList "json list"
  | JObj "(string \<times> json) list"

text \<open>Python's truth value of an object, as \<open>if x:\<close> and \<open>not x\<close> test it.\<close>

fun truthy :: "json \<Rightarrow> bool" where
  "truthy JNull = False"
| "truthy (JBool b) = b"
| "truthy (JInt n) = (n \<noteq> 0)"
| "truthy (JStr s) = (s \<noteq> [])"
| "truthy (JList xs) = (xs \<noteq> [])"
| "truthy (JObj kvs) = (kvs \<noteq> [])"

text \<open>\<open>d.get(k)\<close>: the value stored under \<open>k\<close>, and \<open>None\<close> when the key is absent.\<close>

definition py_get :: "(string \<times> json) list \<Rightarrow> string \<Rightarrow> json" where
  "py_get d k = (case map_of d k of None \<Rightarrow> JNull | Some v \<Rightarrow> v)"

text \<open>\<open>d.get(k, default)\<close>.\<close>

definition py_get_default :: "(string \<times> json) list \<Rightarrow> string \<Rightarrow> json \<Rightarrow> json" where
  "py_get_default d k dflt = (case map_of d k of None \<Rightarrow> dflt | Some v \<Rightarrow> v)"

text \<open>\<open>type(x).__name__\<close>, as it appears in the messages of Python's own errors.\<close>

fun py_type_name :: "json \<Rightarrow> string" where
  "py_type_name JNull = ''NoneType''"
| "py_type_name (JBool b) = ''bool''"
| "py_type_name (JInt n) = ''int''"
| "py_type_name (JStr s) = ''str''"
| "py_type_name (JList xs) = ''list''"
| "py_type_name (JObj kvs) = ''dict''"

section \<open>Effects and exceptions\<close>

text \<open>
  What a function does beyond returning is returned with its result as a list of
  effects, in the order of occurrence: a line handed to \<open>logging\<close>, a call of the
  Telegram client's \<open>send_message\<close>, and the call \<open>await handler(tool_params)\<close> of a
  registered tool handler.
\<close>

datatype log_level = INFO | WARNING | ERROR

record send_call =
  sc_chat_id :: string
  sc_text :: json
  sc_parse_mode :: string

datatype effect =
    Log log_level string
  | TelegramSend send_call
  | HandlerCall string json

text \<open>
  The exceptions of the program: FastAPI's \<open>HTTPException(status_code, detail)\<close>, which
  the router treats apart, and every other \<open>Exception\<close> with its \<open>str(e)\<close>.
\<close>

datatype exn =
    HTTPException int string
  | TypeError string
  | AttributeError string
  | ValidationError string

section \<open>Sessions\<close>

record JSONRPCNotification =
  ntf_jsonrpc :: string
  ntf_method :: string
  ntf_params :: "(string \<times> json) list option"

text \<open>
  \<open>class SSESession\<close>: both queues are \<open>asyncio.Queue(maxsize=100)\<close>, a FIFO whose
  \<open>put_nowait\<close> raises \<open>QueueFull\<close> when \<open>qsize() >= maxsize\<close>.
\<close>

record SSESession =
  session_id :: string
  event_queue :: "string list"
  notification_queue :: "JSONRPCNotification list"
  initialized :: bool
  closed :: bool

definition maxsize :: nat where
  "maxsize = 100"

definition SSESession_init :: "string \<Rightarrow> SSESession" where
  "SSESession_init sid =
     \<lparr>session_id = sid, event_queue = [], notification_queue = [],
      initialized = False, closed = False\<rparr>"

text \<open>\<open>Queue.put_nowait\<close>: \<open>None\<close> stands for \<open>QueueFull\<close>.\<close>

definition put_nowait :: "'a list \<Rightarrow> 'a \<Rightarrow> 'a list option" where
  "put_nowait q x = (if length q \<ge> maxsize then None else Some (q @ [x]))"

definition send_event :: "SSESession \<Rightarrow> string \<Rightarrow> bool \<times> SSESession \<times> effect list" where
  "send_event s event =
     (if closed s then (False, s, [])
      else case put_nowait (event_queue s) event of
             Some q \<Rightarrow> (True, s\<lparr>event_queue := q\<rparr>, [])
           | None \<Rightarrow>
               (False, s, [Log WARNING (''Event queue full for session '' @ session_id s)]))"

definition send_notification ::
    "SSESession \<Rightarrow> JSONRPCNotification \<Rightarrow> bool \<times> SSESession \<times> effect list" where
  "send_notification s notification =
     (if closed s then (False, s, [])
      else case put_nowait (notification_queue s) notification of
             Some q \<Rightarrow> (True, s\<lparr>notification_queue := q\<rparr>, [])
           | None \<Rightarrow>
               (False, s,
                [Log WARNING (''Notification queue full for session '' @ session_id s)]))"

definition close :: "SSESession \<Rightarrow> SSESession" where
  "close s = s\<lparr>closed := True\<rparr>"

text \<open>
  Everything the program ever does to a session object: the two enqueue methods,
  \<open>close()\<close>, the assignment \<open>session.initialized = True\<close> of \<open>handle_initialize\<close>, and
  the two \<open>queue.get()\<close> calls of the stream driver (which take the head of a non-empty
  queue and leave an empty one as it is, the wait ending in a timeout).
\<close>

datatype session_op =
    SendEvent string
  | SendNotification JSONRPCNotification
  | Close
  | SetInitialized
  | GetEvent
  | GetNotification

fun is_enqueue :: "session_op \<Rightarrow> bool" where
  "is_enqueue (SendEvent e) = True"
| "is_enqueue (SendNotification n) = True"
| "is_enqueue _ = False"

text \<open>
  One operation: the boolean an enqueue method returned (no entry for the other
  operations), the session afterwards and the effects.
\<close>

fun session_step :: "SSESession \<Rightarrow> session_op \<Rightarrow> bool list \<times> SSESession \<times> effect list" where
  "session_step s (SendEvent e) = (case send_event s e of (b, s', fx) \<Rightarrow> ([b], s', fx))"
| "session_step s (SendNotification n) =
     (case send_notification s n of (b, s', fx) \<Rightarrow> ([b], s', fx))"
| "session_step s Close = ([], close s, [])"
| "session_step s SetInitialized = ([], s\<lparr>initialized := True\<rparr>, [])"
| "session_step s GetEvent = ([], s\<lparr>event_queue := tl (event_queue s)\<rparr>, [])"
| "session_step s GetNotification =
     ([], s\<lparr>notification_queue := tl (notification_queue s)\<rparr>, [])"

fun session_run :: "SSESession \<Rightarrow> session_op list \<Rightarrow> bool list \<times> SSESession \<times> effect list" where
  "session_run s [] = ([], s, [])"
| "session_run s (op # ops) =
     (case session_step s op of
        (bs, s', fx) \<Rightarrow>
          (case session_run s' ops of (bs', s'', fx') \<Rightarrow> (bs @ bs', s'', fx @ fx')))"

section \<open>Rendering values as text\<close>

text \<open>\<open>str(n)\<close> of a Python \<open>int\<close>: its decimal digits.\<close>

fun str_nat :: "nat \<Rightarrow> string" where
  "str_nat n = (if n < 10 then [char_of (48 + n)] else str_nat (n div 10) @ [char_of (48 + n mod 10)])"

definition str_int :: "int \<Rightarrow> string" where
  "str_int i = (if i < 0 then CHR ''-'' # str_nat (nat (- i)) else str_nat (nat i))"

text \<open>A text between single quotes, as Python's error messages quote a name.\<close>

definition squote :: "string \<Rightarrow> string" where
  "squote s = [CHR 0x27] @ s @ [CHR 0x27]"

text \<open>
  \<open>hash(x)\<close>, which a \<open>dict\<close> takes of a key before it looks the key up: a \<open>list\<close> and a
  \<open>dict\<close> are unhashable and the lookup raises \<open>TypeError\<close>; every other JSON value is
  a key.
\<close>

datatype key = KNone | KBool bool | KInt int | KStr string

fun py_hash :: "json \<Rightarrow> exn + key" where
  "py_hash JNull = Inr KNone"
| "py_hash (JBool b) = Inr (KBool b)"
| "py_hash (JInt n) = Inr (KInt n)"
| "py_hash (JStr s) = Inr (KStr s)"
| "py_hash (JList xs) = Inl (TypeError (''unhashable type: '' @ squote ''list''))"
| "py_hash (JObj kvs) = Inl (TypeError (''unhashable type: '' @ squote ''dict''))"

text \<open>\<open>str(x)\<close> of a hashable JSON value, as an f-string formats it.\<close>

fun key_str :: "key \<Rightarrow> string" where
  "key_str KNone = ''None''"
| "key_str (KBool b) = (if b then ''True'' else ''False'')"
| "key_str (KInt n) = str_int n"
| "key_str (KStr s) = s"

text \<open>\<open>str(e)\<close>; of an \<open>HTTPException\<close> it is the status code, a colon and the detail.\<close>

fun exn_str :: "exn \<Rightarrow> string" where
  "exn_str (HTTPException c d) = str_int c @ '': '' @ d"
| "exn_str (TypeError m) = m"
| "exn_str (AttributeError m) = m"
| "exn_str (ValidationError m) = m"

section \<open>The environment of the server\<close>

text \<open>
  The Telegram client is an external collaborator: \<open>telegram_bot.send_message\<close> is a
  function of the call's arguments that returns the sent message or raises (\<open>Inl\<close> holds
  the \<open>str(e)\<close> of the exception). The global \<open>telegram_bot\<close> is \<open>None\<close> until
  \<open>initialize_telegram\<close> has set it. The library functions \<open>json.dumps(x)\<close> and
  \<open>json.dumps(x, indent=2)\<close>, and the text of the exception that
  \<open>JSONRPCRequest(**body)\<close> raises for a body it refuses, are parameters too.
\<close>

record sent_message =
  sm_message_id :: json
  sm_chat_id :: json
  sm_text :: json

type_synonym bot = "send_call \<Rightarrow> string + sent_message"

record env =
  telegram_bot :: "bot option"
  telegram_chat_id :: string
  json_dumps :: "json \<Rightarrow> string"
  json_dumps_indent :: "json \<Rightarrow> string"
  refusal_text :: "json \<Rightarrow> string"

section \<open>The tool handler and the tool registry\<close>

definition handle_send_message :: "env \<Rightarrow> json \<Rightarrow> (exn + json) \<times> effect list" where
  "handle_send_message E params =
     (case telegram_bot E of
        None \<Rightarrow> (Inl (HTTPException 500 ''Telegram bot not initialized''), [])
      | Some send \<Rightarrow>
          (case params of
             JObj d \<Rightarrow>
               (let message = py_get d ''message'' in
                if \<not> truthy message
                then (Inl (HTTPException 400 ''Missing 'message' parameter''), [])
                else
                  (let call =
                     \<lparr>sc_chat_id = telegram_chat_id E,
                      sc_text = message,
                      sc_parse_mode =
                        (if py_get d ''parse_mode'' = JStr ''MarkdownV2''
                         then ''MarkdownV2'' else ''Markdown'')\<rparr>
                   in case send call of
                        Inr sent_message \<Rightarrow>
                          (Inr (JObj [(''success'', JBool True),
                                      (''message_id'', sm_message_id sent_message),
                                      (''chat_id'', sm_chat_id sent_message),
                                      (''text'', sm_text sent_message)]),
                           [TelegramSend call])
                      | Inl e \<Rightarrow>
                          (Inl (HTTPException 500 (''Failed to send message: '' @ e)),
                           [TelegramSend call, Log ERROR (''Failed to send message: '' @ e)])))
           | other \<Rightarrow>
               (Inl (AttributeError
                  (squote (py_type_name other) @ '' object has no attribute '' @ squote ''get'')),
                [])))"

definition inputSchema :: json where
  "inputSchema =
     JObj [(''type'', JStr ''object''),
           (''properties'',
            JObj [(''message'',
                   JObj [(''type'', JStr ''string''),
                         (''description'', JStr ''The message text to send'')]),
                  (''parse_mode'',
                   JObj [(''type'', JStr ''string''),
                         (''enum'', JList [JStr ''Markdown'', JStr ''MarkdownV2'', JStr ''HTML'']),
                         (''description'', JStr ''Text formatting mode''),
                         (''default'', JStr ''Markdown'')])]),
           (''required'', JList [JStr ''message''])]"

record tool =
  handler :: "env \<Rightarrow> json \<Rightarrow> (exn + json) \<times> effect list"
  schema :: json

definition TOOLS :: "(string \<times> tool) list" where
  "TOOLS =
     [(''send_message'',
       \<lparr>handler = handle_send_message,
        schema =
          JObj [(''name'', JStr ''send_message''),
                (''description'', JStr ''Send a text message via Telegram''),
                (''inputSchema'', inputSchema)]\<rparr>)]"

text \<open>\<open>tool_name in TOOLS\<close> and \<open>TOOLS[tool_name]\<close>: every key of \<open>TOOLS\<close> is a \<open>str\<close>.\<close>

fun tools_lookup :: "key \<Rightarrow> tool option" where
  "tools_lookup (KStr s) = map_of TOOLS s"
| "tools_lookup _ = None"

section \<open>The handlers of the three methods\<close>

definition handle_initialize ::
    "(string \<times> json) list \<Rightarrow> SSESession \<Rightarrow> (exn + json) \<times> SSESession \<times> effect list" where
  "handle_initialize params session =
     (Inr (JObj [(''protocolVersion'', JStr ''2024-11-05''),
                 (''capabilities'', JObj [(''tools'', JObj [])]),
                 (''serverInfo'',
                  JObj [(''name'', JStr ''telegram-mcp-server''),
                        (''version'', JStr ''1.0.0'')])]),
      session\<lparr>initialized := True\<rparr>,
      [Log INFO (''Session '' @ session_id session @ '' initialized'')])"

definition handle_tools_list ::
    "(string \<times> json) list \<Rightarrow> SSESession \<Rightarrow> (exn + json) \<times> SSESession \<times> effect list" where
  "handle_tools_list params session =
     (Inr (JObj [(''tools'', JList (map (\<lambda>(name, t). schema t) TOOLS))]), session, [])"

definition handle_tools_call ::
    "env \<Rightarrow> (string \<times> json) list \<Rightarrow> SSESession \<Rightarrow> (exn + json) \<times> SSESession \<times> effect list"
    where
  "handle_tools_call E params session =
     (let tool_name = py_get params ''name'';
          tool_params = py_get_default params ''arguments'' (JObj [])
      in case py_hash tool_name of
           Inl e \<Rightarrow> (Inl e, session, [])
         | Inr k \<Rightarrow>
             (case tools_lookup k of
                None \<Rightarrow>
                  (Inl (HTTPException 400 (''Unknown tool: '' @ key_str k)), session, [])
              | Some t \<Rightarrow>
                  (case handler t E tool_params of
                     (Inl e, fx) \<Rightarrow> (Inl e, session, HandlerCall (key_str k) tool_params # fx)
                   | (Inr result, fx) \<Rightarrow>
                       (Inr (JObj [(''content'',
                                    JList [JObj [(''type'', JStr ''text''),
                                                 (''text'', JStr (json_dumps_indent E result))]])]),
                        session, HandlerCall (key_str k) tool_params # fx))))"

section \<open>The request router\<close>

text \<open>\<open>class JSONRPCRequest\<close>; an absent \<open>id\<close> is \<open>None\<close>, as an explicit \<open>null\<close> is.\<close>

record JSONRPCRequest =
  req_jsonrpc :: string
  req_id :: json
  req_method :: string
  req_params :: "(string \<times> json) list option"

text \<open>\<open>request.params or {}\<close>.\<close>

definition params_or_empty :: "(string \<times> json) list option \<Rightarrow> (string \<times> json) list" where
  "params_or_empty p = (case p of None \<Rightarrow> [] | Some d \<Rightarrow> if d = [] then [] else d)"

definition result_envelope :: "json \<Rightarrow> json \<Rightarrow> json" where
  "result_envelope i result = JObj [(''jsonrpc'', JStr ''2.0''), (''id'', i), (''result'', result)]"

definition error_envelope :: "json \<Rightarrow> int \<Rightarrow> string \<Rightarrow> json" where
  "error_envelope i code message =
     JObj [(''jsonrpc'', JStr ''2.0''), (''id'', i),
           (''error'', JObj [(''code'', JInt code), (''message'', JStr message)])]"

text \<open>
  The body of the router's \<open>try\<close>: the dispatch on the method name. \<open>Inl\<close> is an
  exception that leaves the body; the \<open>else\<close> branch returns its envelope at once.
\<close>

definition dispatch ::
    "env \<Rightarrow> JSONRPCRequest \<Rightarrow> SSESession \<Rightarrow> (exn + json) \<times> SSESession \<times> effect list" where
  "dispatch E request session =
     (let wrap = (\<lambda>(r, s, fx).
                    (case r of Inl e \<Rightarrow> Inl e
                             | Inr result \<Rightarrow> Inr (result_envelope (req_id request) result),
                     s, fx))
      in if req_method request = ''initialize''
         then wrap (handle_initialize (params_or_empty (req_params request)) session)
         else if req_method request = ''tools/list''
         then wrap (handle_tools_list (params_or_empty (req_params request)) session)
         else if req_method request = ''tools/call''
         then wrap (handle_tools_call E (params_or_empty (req_params request)) session)
         else (Inr (error_envelope (req_id request) (- 32601)
                      (''Method not found: '' @ req_method request)),
               session, []))"

text \<open>
  \<open>handle_mcp_request\<close>, with its two \<open>except\<close> clauses. Its declared result is
  \<open>Optional[Dict[str, Any]]\<close>: \<open>Inr None\<close> would be a returned \<open>None\<close>, and \<open>Inl\<close> an
  exception that escapes.
\<close>

definition handle_mcp_request ::
    "env \<Rightarrow> JSONRPCRequest \<Rightarrow> SSESession \<Rightarrow> (exn + json option) \<times> SSESession \<times> effect list"
    where
  "handle_mcp_request E request session =
     (case dispatch E request session of
        (Inr envelope, s, fx) \<Rightarrow> (Inr (Some envelope), s, fx)
      | (Inl (HTTPException status_code detail), s, fx) \<Rightarrow>
          (Inr (Some (error_envelope (req_id request) status_code detail)), s, fx)
      | (Inl e, s, fx) \<Rightarrow>
          (Inr (Some (error_envelope (req_id request) (- 32603)
                        (''Internal error: '' @ exn_str e))),
           s,
           fx @ [Log ERROR (''Error handling MCP request '' @ req_method request @ '': ''
                            @ exn_str e)]))"

section \<open>The call endpoint\<close>

text \<open>
  \<open>JSONRPCRequest(**body)\<close>: the body must be a mapping; \<open>jsonrpc\<close> (default
  \<open>"2.0"\<close>) and \<open>method\<close> (required) must be strings, \<open>params\<close> a mapping or \<open>None\<close>,
  \<open>id\<close> is anything; other keys are ignored.
\<close>

definition JSONRPCRequest_init :: "env \<Rightarrow> json \<Rightarrow> exn + JSONRPCRequest" where
  "JSONRPCRequest_init E body =
     (case body of
        JObj d \<Rightarrow>
          (case (map_of d ''jsonrpc'', map_of d ''method'', map_of d ''params'') of
             (None, Some (JStr m), None) \<Rightarrow>
               Inr \<lparr>req_jsonrpc = ''2.0'', req_id = py_get d ''id'', req_method = m,
                    req_params = None\<rparr>
           | (None, Some (JStr m), Some JNull) \<Rightarrow>
               Inr \<lparr>req_jsonrpc = ''2.0'', req_id = py_get d ''id'', req_method = m,
                    req_params = None\<rparr>
           | (None, Some (JStr m), Some (JObj ps)) \<Rightarrow>
               Inr \<lparr>req_jsonrpc = ''2.0'', req_id = py_get d ''id'', req_method = m,
                    req_params = Some ps\<rparr>
           | (Some (JStr v), Some (JStr m), None) \<Rightarrow>
               Inr \<lparr>req_jsonrpc = v, req_id = py_get d ''id'', req_method = m,
                    req_params = None\<rparr>
           | (Some (JStr v), Some (JStr m), Some JNull) \<Rightarrow>
               Inr \<lparr>req_jsonrpc = v, req_id = py_get d ''id'', req_method = m,
                    req_params = None\<rparr>
           | (Some (JStr v), Some (JStr m), Some (JObj ps)) \<Rightarrow>
               Inr \<lparr>req_jsonrpc = v, req_id = py_get d ''id'', req_method = m,
                    req_params = Some ps\<rparr>
           | _ \<Rightarrow> Inl (ValidationError (refusal_text E body)))
      | _ \<Rightarrow> Inl (TypeError (refusal_text E body)))"

definition accepted :: json where
  "accepted = JObj [(''status'', JStr ''accepted'')]"

text \<open>
  The body of the endpoint's \<open>try\<close>. \<open>body\<close> is what \<open>await request.json()\<close> gave: the
  parsed document, or the exception it raised.
\<close>

definition message_endpoint_try ::
    "env \<Rightarrow> SSESession \<Rightarrow> exn + json \<Rightarrow> (exn + json) \<times> SSESession \<times> effect list" where
  "message_endpoint_try E session body =
     (case body of
        Inl e \<Rightarrow> (Inl e, session, [])
      | Inr b \<Rightarrow>
          (case JSONRPCRequest_init E b of
             Inl e \<Rightarrow> (Inl e, session, [])
           | Inr mcp_request \<Rightarrow>
               (case handle_mcp_request E mcp_request session of
                  (Inl e, s, fx) \<Rightarrow> (Inl e, s, fx)
                | (Inr None, s, fx) \<Rightarrow> (Inr accepted, s, fx)
                | (Inr (Some response), s, fx) \<Rightarrow>
                    if truthy response
                    then (case send_event s
                                 (''event: message\<newline>data: '' @ json_dumps E response
                                  @ ''\<newline>\<newline>'') of
                            (sent, s', fx') \<Rightarrow> (Inr accepted, s', fx @ fx'))
                    else (Inr accepted, s, fx))))"

text \<open>
  \<open>message_endpoint\<close>: \<open>sessions\<close> is the global registry. The session is an object
  shared with the registry, so what the call does to it shows in the registry.
\<close>

definition message_endpoint ::
    "env \<Rightarrow> (string \<rightharpoonup> SSESession) \<Rightarrow> string \<Rightarrow> exn + json \<Rightarrow>
     (exn + json) \<times> (string \<rightharpoonup> SSESession) \<times> effect list" where
  "message_endpoint E sessions sessionId body =
     (case sessions sessionId of
        None \<Rightarrow> (Inl (HTTPException 400 ''Invalid session ID''), sessions, [])
      | Some session \<Rightarrow>
          if closed session
          then (Inl (HTTPException 400 ''Session closed''), sessions, [])
          else
            (case message_endpoint_try E session body of
               (Inr r, s, fx) \<Rightarrow> (Inr r, sessions(sessionId \<mapsto> s), fx)
             | (Inl e, s, fx) \<Rightarrow>
                 (Inl (HTTPException 500 (exn_str e)), sessions(sessionId \<mapsto> s),
                  fx @ [Log ERROR (''Error processing message: '' @ exn_str e)])))"

section \<open>JSON Schema\<close>

text \<open>
  What a client does with the \<open>inputSchema\<close> it got from \<open>tools/list\<close>: it validates
  arguments against it. The validation keywords the schema uses are \<open>type\<close>, \<open>enum\<close>,
  \<open>required\<close> and \<open>properties\<close>; \<open>description\<close> and \<open>default\<close> are annotations.
\<close>

fun type_ok :: "string \<Rightarrow> json \<Rightarrow> bool" where
  "type_ok t JNull = (t = ''null'')"
| "type_ok t (JBool b) = (t = ''boolean'')"
| "type_ok t (JInt n) = (t = ''integer'' \<or> t = ''number'')"
| "type_ok t (JStr s) = (t = ''string'')"
| "type_ok t (JList xs) = (t = ''array'')"
| "type_ok t (JObj kvs) = (t = ''object'')"

lemma map_of_size: "map_of kvs k = Some v \<Longrightarrow> size v < size (JObj kvs)"
  by (induction kvs) (auto split: if_splits)

lemma in_obj_size: "(k, v) \<in> set kvs \<Longrightarrow> size v < size (JObj kvs)"
  by (induction kvs) auto

function validates :: "json \<Rightarrow> json \<Rightarrow> bool" where
  "validates (JObj kw) v =
     ((case map_of kw ''type'' of Some (JStr t) \<Rightarrow> type_ok t v | _ \<Rightarrow> True) \<and>
      (case map_of kw ''enum'' of Some (JList vs) \<Rightarrow> v \<in> set vs | _ \<Rightarrow> True) \<and>
      (case (map_of kw ''required'', v) of
         (Some (JList ks), JObj m) \<Rightarrow>
           list_all (\<lambda>k. case k of JStr s \<Rightarrow> map_of m s \<noteq> None | _ \<Rightarrow> True) ks
       | _ \<Rightarrow> True) \<and>
      (case map_of kw ''properties'' of
         Some (JObj ps) \<Rightarrow>
           (case v of
              JObj m \<Rightarrow>
                list_all (\<lambda>(k, sub). case map_of m k of None \<Rightarrow> True
                                                       | Some x \<Rightarrow> validates sub x) ps
            | _ \<Rightarrow> True)
       | _ \<Rightarrow> True))"
| "validates (JBool b) v = b"
| "validates JNull v = False"
| "validates (JInt n) v = False"
| "validates (JStr s) v = False"
| "validates (JList xs) v = False"
  by pat_completeness auto
termination
proof (relation "measure (\<lambda>(s, v). size s)", goal_cases)
  case 1
  show ?case by simp
next
  case (2 kw v x2 ps m x k sub y)
  from 2 have "(k, sub) \<in> set ps"
    by simp
  then have "size sub < size (JObj ps)"
    by (rule in_obj_size)
  moreover from 2 have "map_of kw ''properties'' = Some (JObj ps)"
    by simp
  then have "size (JObj ps) < size (JObj kw)"
    by (rule map_of_size)
  ultimately show ?case
    by simp
qed

text \<open>
  The schema a client reads for a tool out of the result of \<open>tools/list\<close>: the
  \<open>inputSchema\<close> of the entry of \<open>tools\<close> whose \<open>name\<close> is the tool's.
\<close>

fun listed_schemas :: "json \<Rightarrow> json list" where
  "listed_schemas (JObj r) = (case map_of r ''tools'' of Some (JList ts) \<Rightarrow> ts | _ \<Rightarrow> [])"
| "listed_schemas _ = []"

fun schema_name :: "json \<Rightarrow> json" where
  "schema_name (JObj t) = py_get t ''name''"
| "schema_name _ = JNull"

fun schema_input :: "json \<Rightarrow> json option" where
  "schema_input (JObj t) = map_of t ''inputSchema''"
| "schema_input _ = None"

definition discovered_schema :: "string \<Rightarrow> json option" where
  "discovered_schema name =
     (case fst (handle_tools_list [] (SSESession_init [])) of
        Inr r \<Rightarrow>
          (case filter (\<lambda>t. schema_name t = JStr name) (listed_schemas r) of
             t # ts \<Rightarrow> schema_input t
           | [] \<Rightarrow> None)
      | Inl e \<Rightarrow> None)"

section \<open>The event stream driver\<close>

text \<open>
  \<open>sse_event_stream\<close> is an asynchronous generator: it runs from one suspension point to
  the next. The points are its three \<open>yield\<close>s and its two \<open>await\<close>s; what happens at
  a point decides how it goes on.
\<close>

datatype pc =
    AtEndpointYield
  | AtQueueWait
  | AtEventYield
  | AtKeepAliveYield
  | AtTaskAwait
  | Finished

text \<open>
  \<open>Resume\<close>: the consumer asks for the next frame (at a \<open>yield\<close>), the wait on the queue
  ends (with the head of the queue, or in \<open>TimeoutError\<close> when the queue is empty), the
  awaited task is done. \<open>Fail\<close>: an exception of class \<open>Exception\<close> other than
  \<open>TimeoutError\<close> is raised at the point, \<open>str(e)\<close> being the text.
  \<open>Cancel\<close>: \<open>CancelledError\<close> or \<open>GeneratorExit\<close> is raised at the point, as when the
  client disconnects; neither is an \<open>Exception\<close>. \<open>Other\<close>: another coroutine does
  something to the session while the generator is suspended (the call endpoint enqueues
  an event, the shutdown hook closes the session).
\<close>

datatype stimulus =
    Resume
  | Fail string
  | Cancel
  | Other session_op

datatype action =
    Yield string
  | CreateTask
  | CancelTask
  | AwaitTask
  | CloseSession
  | RemoveSession
  | Logged log_level string

text \<open>\<open>d_registered\<close> holds the keys of the global \<open>sessions\<close>.\<close>

record driver =
  d_pc :: pc
  d_session :: SSESession
  d_registered :: "string set"
  d_trace :: "action list"

text \<open>The \<open>finally\<close> block.\<close>

definition teardown :: "driver \<Rightarrow> driver" where
  "teardown d =
     d\<lparr>d_pc := Finished,
       d_session := close (d_session d),
       d_registered := d_registered d - {session_id (d_session d)},
       d_trace := d_trace d @ [CloseSession]
                @ (if session_id (d_session d) \<in> d_registered d then [RemoveSession] else [])\<rparr>"

text \<open>The lines under \<open># Clean up\<close>, up to the \<open>await\<close>.\<close>

definition cleanup :: "driver \<Rightarrow> driver" where
  "cleanup d = d\<lparr>d_pc := AtTaskAwait, d_trace := d_trace d @ [CancelTask, AwaitTask]\<rparr>"

text \<open>\<open>while not session.closed\<close>.\<close>

definition loop_head :: "driver \<Rightarrow> driver" where
  "loop_head d = (if closed (d_session d) then cleanup d else d\<lparr>d_pc := AtQueueWait\<rparr>)"

definition logged :: "string \<Rightarrow> driver \<Rightarrow> driver" where
  "logged m d = d\<lparr>d_trace := d_trace d @ [Logged ERROR m]\<rparr>"

text \<open>The generator up to its first \<open>yield\<close>.\<close>

definition sse_event_stream :: "SSESession \<Rightarrow> string \<Rightarrow> string set \<Rightarrow> driver" where
  "sse_event_stream s base_url reg =
     \<lparr>d_pc = AtEndpointYield, d_session = s, d_registered = reg,
      d_trace = [Yield (''event: endpoint\<newline>data: '' @ base_url @ ''/message?sessionId=''
                      @ session_id s @ ''\<newline>\<newline>'')]\<rparr>"

fun resume :: "driver \<Rightarrow> driver" where
  "resume d =
     (case d_pc d of
        AtEndpointYield \<Rightarrow> loop_head (d\<lparr>d_trace := d_trace d @ [CreateTask]\<rparr>)
      | AtQueueWait \<Rightarrow>
          (case event_queue (d_session d) of
             [] \<Rightarrow> d\<lparr>d_pc := AtKeepAliveYield,
                      d_trace := d_trace d @ [Yield '': keep-alive\<newline>\<newline>'']\<rparr>
           | event # q \<Rightarrow>
               d\<lparr>d_pc := AtEventYield,
                 d_session := (d_session d)\<lparr>event_queue := q\<rparr>,
                 d_trace := d_trace d @ [Yield event]\<rparr>)
      | AtEventYield \<Rightarrow> loop_head d
      | AtKeepAliveYield \<Rightarrow> loop_head d
      | AtTaskAwait \<Rightarrow> teardown d
      | Finished \<Rightarrow> d)"

text \<open>
  An \<open>Exception\<close> at the wait or at \<open>yield event\<close> is inside the inner \<open>try\<close>: logged,
  then \<open>break\<close>. Anywhere else the outer \<open>except Exception\<close> takes it.
\<close>

fun fail :: "string \<Rightarrow> driver \<Rightarrow> driver" where
  "fail e d =
     (case d_pc d of
        AtQueueWait \<Rightarrow> cleanup (logged (''Error in SSE stream: '' @ e) d)
      | AtEventYield \<Rightarrow> cleanup (logged (''Error in SSE stream: '' @ e) d)
      | Finished \<Rightarrow> d
      | _ \<Rightarrow> teardown (logged (''SSE stream error: '' @ e) d))"

text \<open>
  \<open>CancelledError\<close> and \<open>GeneratorExit\<close> pass every \<open>except Exception\<close>; only the
  \<open>finally\<close> block runs. (At the \<open>await\<close> of the task, \<open>except asyncio.CancelledError: pass\<close>
  takes it, and the \<open>finally\<close> block is what follows.)
\<close>

fun cancel :: "driver \<Rightarrow> driver" where
  "cancel d = (case d_pc d of Finished \<Rightarrow> d | _ \<Rightarrow> teardown d)"

fun driver_step :: "driver \<Rightarrow> stimulus \<Rightarrow> driver" where
  "driver_step d Resume = resume d"
| "driver_step d (Fail e) = fail e d"
| "driver_step d Cancel = cancel d"
| "driver_step d (Other op) = d\<lparr>d_session := fst (snd (session_step (d_session d) op))\<rparr>"

definition driver_run :: "driver \<Rightarrow> stimulus list \<Rightarrow> driver" where
  "driver_run d stimuli = foldl driver_step d stimuli"

text \<open>
  What the \<open>finally\<close> block leaves behind, once and only once: after the exit the
  session is closed, its id is out of the registry and \<open>CloseSession\<close> stands once in
  the trace; before the exit it does not stand there.
\<close>

definition torn_down :: "driver \<Rightarrow> bool" where
  "torn_down d =
     (if d_pc d = Finished
      then closed (d_session d) \<and> session_id (d_session d) \<notin> d_registered d \<and>
           count_list (d_trace d) CloseSession = 1
      else count_list (d_trace d) CloseSession = 0)"

section \<open>Reading a response envelope\<close>

text \<open>\<open>obj[k]\<close> where \<open>obj\<close> is a mapping that has the key.\<close>

fun field :: "json \<Rightarrow> string \<Rightarrow> json option" where
  "field (JObj kvs) k = map_of kvs k"
| "field _ k = None"

definition error_code :: "json \<Rightarrow> json option" where
  "error_code envelope =
     (case field envelope ''error'' of Some e \<Rightarrow> field e ''code'' | None \<Rightarrow> None)"

definition error_message :: "json \<Rightarrow> json option" where
  "error_message envelope =
     (case field envelope ''error'' of Some e \<Rightarrow> field e ''message'' | None \<Rightarrow> None)"

section \<open>Observing a run\<close>

text \<open>The calls of the Telegram client's \<open>send_message\<close> among the effects, in order.\<close>

fun sends :: "effect list \<Rightarrow> send_call list" where
  "sends [] = []"
| "sends (TelegramSend c # fx) = c # sends fx"
| "sends (x # fx) = sends fx"

text \<open>
  The handler accepts its arguments when it passes them on to the send action, whether
  or not the delivery succeeds then.
\<close>

definition accepts :: "env \<Rightarrow> json \<Rightarrow> bool" where
  "accepts E args = (sends (snd (handle_send_message E args)) \<noteq> [])"

text \<open>The frame the call endpoint makes of a response.\<close>

definition response_frame :: "env \<Rightarrow> json \<Rightarrow> string" where
  "response_frame E response =
     ''event: message\<newline>data: '' @ json_dumps E response @ ''\<newline>\<newline>''"

section \<open>A concrete environment\<close>

text \<open>
  To run the model on an input, the parameters of the environment need values. The
  serializer below writes what \<open>json.dumps\<close> writes (with \<open>indent\<close> when given) for
  the values of the model, a character standing for the code point of its number.
\<close>

definition hexdigit :: "nat \<Rightarrow> char" where
  "hexdigit n = (if n < 10 then char_of (48 + n) else char_of (87 + n))"

definition escape :: "char \<Rightarrow> string" where
  "escape c =
     (if c = CHR 0x22 then [CHR 0x5C, CHR 0x22]
      else if c = CHR 0x5C then [CHR 0x5C, CHR 0x5C]
      else if c = CHR 0x0A then [CHR 0x5C, CHR ''n'']
      else if c = CHR 0x0D then [CHR 0x5C, CHR ''r'']
      else if c = CHR 0x09 then [CHR 0x5C, CHR ''t'']
      else if c = CHR 0x08 then [CHR 0x5C, CHR ''b'']
      else if c = CHR 0x0C then [CHR 0x5C, CHR ''f'']
      else if 32 \<le> (of_char c :: nat) \<and> (of_char c :: nat) \<le> 126 then [c]
      else [CHR 0x5C] @ ''u00'' @ [hexdigit (of_char c div 16), hexdigit (of_char c mod 16)])"

definition dquote :: "string \<Rightarrow> string" where
  "dquote s = [CHR 0x22] @ concat (map escape s) @ [CHR 0x22]"

fun join :: "string \<Rightarrow> string list \<Rightarrow> string" where
  "join sep [] = []"
| "join sep [x] = x"
| "join sep (x # y # ys) = x @ sep @ join sep (y # ys)"

definition line_break :: "nat option \<Rightarrow> nat \<Rightarrow> string" where
  "line_break indent level =
     (case indent of None \<Rightarrow> [] | Some n \<Rightarrow> CHR 0x0A # replicate (n * level) CHR '' '')"

definition item_separator :: "nat option \<Rightarrow> nat \<Rightarrow> string" where
  "item_separator indent level =
     (case indent of None \<Rightarrow> '', '' | Some n \<Rightarrow> '','' @ line_break indent level)"

fun dumps :: "nat option \<Rightarrow> nat \<Rightarrow> json \<Rightarrow> string" where
  "dumps indent level JNull = ''null''"
| "dumps indent level (JBool b) = (if b then ''true'' else ''false'')"
| "dumps indent level (JInt n) = str_int n"
| "dumps indent level (JStr s) = dquote s"
| "dumps indent level (JList xs) =
     (if xs = [] then ''[]''
      else ''['' @ line_break indent (Suc level)
           @ join (item_separator indent (Suc level)) (map (dumps indent (Suc level)) xs)
           @ line_break indent level @ '']'')"
| "dumps indent level (JObj kvs) =
     (if kvs = [] then ''{}''
      else ''{'' @ line_break indent (Suc level)
           @ join (item_separator indent (Suc level))
               (map (\<lambda>(k, v). dquote k @ '': '' @ dumps indent (Suc level) v) kvs)
           @ line_break indent level @ ''}'')"


definition example_bot :: bot where
  "example_bot call =
     Inr \<lparr>sm_message_id = JInt 7, sm_chat_id = JInt 42, sm_text = sc_text call\<rparr>"

definition failing_bot :: bot where
  "failing_bot call = Inl ''Timed out''"

definition example_env :: env where
  "example_env =
     \<lparr>telegram_bot = Some example_bot,
      telegram_chat_id = ''42'',
      json_dumps = dumps None 0,
      json_dumps_indent = dumps (Some 2) 0,
      refusal_text = (\<lambda>body. ''invalid request: '' @ dumps None 0 body)\<rparr>"

definition example_notification :: JSONRPCNotification where
  "example_notification = \<lparr>ntf_jsonrpc = ''2.0'', ntf_method = ''ping'', ntf_params = None\<rparr>"

definition closed_example :: SSESession where
  "closed_example = close ((SSESession_init ''s1'')\<lparr>event_queue := [''a'', ''b'']\<rparr>)"

definition full_example :: SSESession where
  "full_example = (SSESession_init ''s1'')\<lparr>event_queue := replicate 100 ''frame''\<rparr>"

definition failing_env :: env where
  "failing_env = example_env\<lparr>telegram_bot := Some failing_bot\<rparr>"

definition ping_request :: JSONRPCRequest where
  "ping_request =
     \<lparr>req_jsonrpc = ''2.0'', req_id = JInt 5, req_method = ''ping'', req_params = None\<rparr>"

definition initialize_request :: JSONRPCRequest where
  "initialize_request =
     \<lparr>req_jsonrpc = ''2.0'', req_id = JNull, req_method = ''initialize'', req_params = None\<rparr>"

definition tool_call :: "json \<Rightarrow> (string \<times> json) list \<Rightarrow> JSONRPCRequest" where
  "tool_call i params =
     \<lparr>req_jsonrpc = ''2.0'', req_id = i, req_method = ''tools/call'', req_params = Some params\<rparr>"

definition initialize_body :: json where
  "initialize_body =
     JObj [(''jsonrpc'', JStr ''2.0''), (''id'', JInt 1), (''method'', JStr ''initialize'')]"

definition endpoint_frame :: string where
  "endpoint_frame =
     ''event: endpoint\<newline>data: http://host/message?sessionId=s1\<newline>\<newline>''"

section \<open>Properties of sessions\<close>

lemma send_event_closed: "closed s \<Longrightarrow> send_event s e = (False, s, [])"
  by (simp add: send_event_def)

lemma send_notification_closed: "closed s \<Longrightarrow> send_notification s n = (False, s, [])"
  by (simp add: send_notification_def)

lemma session_step_closed: "closed s \<Longrightarrow> closed (fst (snd (session_step s op)))"
  by (cases op) (simp_all add: send_event_closed send_notification_closed close_def)

lemma session_step_enqueue_closed:
  "closed s \<Longrightarrow> is_enqueue op \<Longrightarrow> session_step s op = ([False], s, [])"
  by (cases op) (simp_all add: send_event_closed send_notification_closed)

lemma session_step_other:
  "\<not> is_enqueue op \<Longrightarrow> fst (session_step s op) = [] \<and> snd (snd (session_step s op)) = []"
  by (cases op) simp_all

lemma session_run_Cons:
  "fst (session_run s (op # ops)) =
     fst (session_step s op) @ fst (session_run (fst (snd (session_step s op))) ops)"
  "fst (snd (session_run s (op # ops))) =
     fst (snd (session_run (fst (snd (session_step s op))) ops))"
  "snd (snd (session_run s (op # ops))) =
     snd (snd (session_step s op)) @ snd (snd (session_run (fst (snd (session_step s op))) ops))"
  by (simp_all split: prod.splits)

lemma session_run_closed: "closed s \<Longrightarrow> closed (fst (snd (session_run s ops)))"
proof (induction ops arbitrary: s)
  case Nil
  then show ?case by simp
next
  case (Cons op ops)
  from Cons.prems have "closed (fst (snd (session_step s op)))"
    by (rule session_step_closed)
  then show ?case
    by (simp only: session_run_Cons Cons.IH)
qed

lemma session_run_results:
  "closed s \<Longrightarrow> fst (session_run s ops) = replicate (length (filter is_enqueue ops)) False"
proof (induction ops arbitrary: s)
  case Nil
  then show ?case by simp
next
  case (Cons op ops)
  have c: "closed (fst (snd (session_step s op)))"
    using Cons.prems by (rule session_step_closed)
  show ?case
  proof (cases "is_enqueue op")
    case True
    then show ?thesis
      using Cons.IH[OF c] Cons.prems
      by (simp add: session_run_Cons session_step_enqueue_closed del: session_run.simps)
  next
    case False
    then show ?thesis
      using Cons.IH[OF c] session_step_other[OF False, of s]
      by (simp add: session_run_Cons del: session_run.simps)
  qed
qed

lemma session_run_skip:
  "closed s \<Longrightarrow>
     snd (session_run s ops) = snd (session_run s (filter (\<lambda>op. \<not> is_enqueue op) ops))"
proof (induction ops arbitrary: s)
  case Nil
  then show ?case by simp
next
  case (Cons op ops)
  have c: "closed (fst (snd (session_step s op)))"
    using Cons.prems by (rule session_step_closed)
  show ?case
  proof (cases "is_enqueue op")
    case True
    then show ?thesis
      using Cons.IH[OF Cons.prems] Cons.prems
      by (simp add: prod_eq_iff session_run_Cons session_step_enqueue_closed
            del: session_run.simps)
  next
    case False
    then show ?thesis
      using Cons.IH[OF c]
      by (simp add: prod_eq_iff session_run_Cons del: session_run.simps)
  qed
qed

lemma send_event_room:
  "\<not> closed s \<Longrightarrow> length (event_queue s) < 100 \<Longrightarrow>
     send_event s e = (True, s\<lparr>event_queue := event_queue s @ [e]\<rparr>, [])"
  by (simp add: send_event_def put_nowait_def maxsize_def)

lemma send_event_full:
  "\<not> closed s \<Longrightarrow> length (event_queue s) \<ge> 100 \<Longrightarrow>
     send_event s e = (False, s, [Log WARNING (''Event queue full for session '' @ session_id s)])"
  by (simp add: send_event_def put_nowait_def maxsize_def)

lemma session_run_append:
  "session_run s (xs @ ys) =
     (fst (session_run s xs) @ fst (session_run (fst (snd (session_run s xs))) ys),
      fst (snd (session_run (fst (snd (session_run s xs))) ys)),
      snd (snd (session_run s xs)) @ snd (snd (session_run (fst (snd (session_run s xs))) ys)))"
  by (induction xs arbitrary: s) (simp_all split: prod.splits)

lemma session_run_fill:
  "\<not> closed s \<Longrightarrow> length (event_queue s) + length es \<le> 100 \<Longrightarrow>
     session_run s (map SendEvent es) =
       (replicate (length es) True, s\<lparr>event_queue := event_queue s @ es\<rparr>, [])"
proof (induction es arbitrary: s)
  case Nil
  then show ?case by simp
next
  case (Cons e es)
  let ?s = "s\<lparr>event_queue := event_queue s @ [e]\<rparr>"
  from Cons.prems have step: "send_event s e = (True, ?s, [])"
    by (simp add: send_event_room)
  from Cons.prems have "\<not> closed ?s" "length (event_queue ?s) + length es \<le> 100"
    by simp_all
  from Cons.IH[OF this] step show ?case
    by simp
qed

text \<open>
  Claim C5. A new session is open and \<open>close()\<close> closes it. Once a session is
  closed, every call of \<open>send_event\<close> and of \<open>send_notification\<close> returns \<open>False\<close>, changes nothing in the session (neither queue)
  and logs nothing, in any sequence and however the calls are interleaved with the
  other operations on the session: the booleans returned are all \<open>False\<close>, and the
  session ends as it would have without the enqueue calls. No operation resets
  \<open>closed\<close>: a closed session stays closed through every sequence of operations.
\<close>

theorem closed_session_rejects_enqueues:
  assumes "closed s"
  shows "\<not> closed (SSESession_init sid) \<and>
         closed (close s0) \<and>
         send_event s e = (False, s, []) \<and>
         send_notification s n = (False, s, []) \<and>
         fst (session_run s ops) = replicate (length (filter is_enqueue ops)) False \<and>
         snd (session_run s ops) = snd (session_run s (filter (\<lambda>op. \<not> is_enqueue op) ops)) \<and>
         closed (fst (snd (session_run s ops)))"
  using assms
  by (simp add: send_event_closed send_notification_closed session_run_results
        session_run_closed session_run_skip[of s ops] SSESession_init_def close_def)

theorem closed_session_rejects_enqueues_witness:
  "closed closed_example \<and>
   (\<not> closed (SSESession_init ''s1'') \<and>
    closed (close (SSESession_init ''s1'')) \<and>
    send_event closed_example ''c'' = (False, closed_example, []) \<and>
    send_notification closed_example example_notification = (False, closed_example, []) \<and>
    fst (session_run closed_example
           [SendEvent ''c'', GetEvent, SendNotification example_notification, SetInitialized,
            SendEvent ''d'', Close]) =
      replicate (length (filter is_enqueue
           [SendEvent ''c'', GetEvent, SendNotification example_notification, SetInitialized,
            SendEvent ''d'', Close])) False \<and>
    snd (session_run closed_example
           [SendEvent ''c'', GetEvent, SendNotification example_notification, SetInitialized,
            SendEvent ''d'', Close]) =
      snd (session_run closed_example (filter (\<lambda>op. \<not> is_enqueue op)
           [SendEvent ''c'', GetEvent, SendNotification example_notification, SetInitialized,
            SendEvent ''d'', Close])) \<and>
    closed (fst (snd (session_run closed_example
           [SendEvent ''c'', GetEvent, SendNotification example_notification, SetInitialized,
            SendEvent ''d'', Close]))))"
proof -
  have h: "closed closed_example"
    by (simp add: closed_example_def close_def)
  show ?thesis
    by (rule conjI[OF h closed_session_rejects_enqueues[OF h]])
qed


text \<open>The run of the witness, computed.\<close>

lemma closed_example_run:
  "session_run closed_example
           [SendEvent ''c'', GetEvent, SendNotification example_notification, SetInitialized,
            SendEvent ''d'', Close] = ([False, False, False], closed_example\<lparr>event_queue := [''b''], initialized := True\<rparr>, [])"
  by (simp add: closed_example_def close_def SSESession_init_def send_event_def send_notification_def)



text \<open>
  Claim C6. An open session whose raw-event queue holds 100 items rejects the next
  \<open>send_event\<close>: the call returns \<open>False\<close> at once (\<open>put_nowait\<close> does not wait), logs
  the warning, and leaves the session as it was. Counted from a new session: of 101
  events sent in a row the first 100 are queued and the 101st is rejected.
\<close>

theorem full_event_queue_rejects:
  "(\<not> closed s \<and> length (event_queue s) = 100 \<longrightarrow>
      send_event s e =
        (False, s, [Log WARNING (''Event queue full for session '' @ session_id s)])) \<and>
   (length es = 100 \<longrightarrow>
      session_run (SSESession_init sid) (map SendEvent (es @ [e])) =
        (replicate 100 True @ [False],
         (SSESession_init sid)\<lparr>event_queue := es\<rparr>,
         [Log WARNING (''Event queue full for session '' @ sid)]))"
proof (intro conjI impI)
  assume "\<not> closed s \<and> length (event_queue s) = 100"
  then show "send_event s e =
      (False, s, [Log WARNING (''Event queue full for session '' @ session_id s)])"
    by (simp add: send_event_full)
next
  assume len: "length es = 100"
  let ?s0 = "SSESession_init sid"
  have fill: "session_run ?s0 (map SendEvent es) =
      (replicate (length es) True, ?s0\<lparr>event_queue := event_queue ?s0 @ es\<rparr>, [])"
    by (rule session_run_fill) (simp_all add: SSESession_init_def len)
  have full: "send_event (?s0\<lparr>event_queue := es\<rparr>) e =
      (False, ?s0\<lparr>event_queue := es\<rparr>,
       [Log WARNING (''Event queue full for session '' @ sid)])"
    using send_event_full[of "?s0\<lparr>event_queue := es\<rparr>" e] len
    by (simp add: SSESession_init_def)
  show "session_run ?s0 (map SendEvent (es @ [e])) =
      (replicate 100 True @ [False], ?s0\<lparr>event_queue := es\<rparr>,
       [Log WARNING (''Event queue full for session '' @ sid)])"
    using fill full len
    by (simp add: session_run_append SSESession_init_def)
qed

theorem full_event_queue_rejects_witness:
  "(\<not> closed full_example \<and> length (event_queue full_example) = 100) \<and>
   send_event full_example ''one more'' =
     (False, full_example, [Log WARNING (''Event queue full for session '' @ session_id full_example)]) \<and>
   length (replicate 100 ''frame'') = 100 \<and>
   session_run (SSESession_init ''s1'') (map SendEvent (replicate 100 ''frame'' @ [''one more''])) =
     (replicate 100 True @ [False],
      (SSESession_init ''s1'')\<lparr>event_queue := replicate 100 ''frame''\<rparr>,
      [Log WARNING (''Event queue full for session '' @ ''s1'')])"
proof -
  have h1: "\<not> closed full_example \<and> length (event_queue full_example) = 100"
    by (simp add: full_example_def SSESession_init_def)
  have h2: "length (replicate 100 ''frame'') = 100"
    by simp
  from full_event_queue_rejects[of full_example "''one more''" "replicate 100 ''frame''" "''s1''"]
    h1 h2
  show ?thesis
    by blast
qed



section \<open>Properties of the router\<close>

lemma dispatch_Inr:
  "dispatch E r s = (Inr envelope, s', fx) \<Longrightarrow>
     (\<exists>x. envelope = result_envelope (req_id r) x) \<or>
     envelope = error_envelope (req_id r) (- 32601) (''Method not found: '' @ req_method r)"
  by (auto simp: dispatch_def Let_def split: if_splits prod.splits sum.splits)

lemma field_result_envelope:
  "field (result_envelope i x) ''id'' = Some i"
  "field (result_envelope i x) ''result'' = Some x"
  "field (result_envelope i x) ''error'' = None"
  by (simp_all add: result_envelope_def)

lemma field_error_envelope:
  "field (error_envelope i c m) ''id'' = Some i"
  "field (error_envelope i c m) ''result'' = None"
  "field (error_envelope i c m) ''error'' = Some (JObj [(''code'', JInt c), (''message'', JStr m)])"
  by (simp_all add: error_envelope_def)

lemma error_code_envelope:
  "error_code (error_envelope i c m) = Some (JInt c)"
  "error_message (error_envelope i c m) = Some (JStr m)"
  "error_code (result_envelope i x) = None"
  by (simp_all add: error_code_def error_message_def error_envelope_def result_envelope_def)

lemma handle_mcp_request_shape:
  "\<exists>envelope s' fx.
     handle_mcp_request E r s = (Inr (Some envelope), s', fx) \<and>
     ((\<exists>x. envelope = result_envelope (req_id r) x) \<or>
      (\<exists>code message. envelope = error_envelope (req_id r) code message))"
proof -
  obtain res s' fx where d: "dispatch E r s = (res, s', fx)"
    by (cases "dispatch E r s") auto
  show ?thesis
  proof (cases res)
    case (Inl e)
    with d show ?thesis
      by (cases e) (auto simp: handle_mcp_request_def)
  next
    case (Inr envelope)
    with d dispatch_Inr[of E r s envelope s' fx] show ?thesis
      by (auto simp: handle_mcp_request_def)
  qed
qed


text \<open>
  Claim C7. For every request, whatever its \<open>id\<close> (\<open>JNull\<close> is the absent one), the
  router returns an envelope: no exception escapes it and it never returns \<open>None\<close>.
  The envelope is either a result envelope or an error envelope, so it has exactly one
  of the keys \<open>result\<close> and \<open>error\<close>, and its \<open>id\<close> is the request's.
\<close>

theorem router_returns_one_envelope:
  "\<exists>envelope.
     fst (handle_mcp_request E r s) = Inr (Some envelope) \<and>
     ((\<exists>x. envelope = result_envelope (req_id r) x) \<or>
      (\<exists>code message. envelope = error_envelope (req_id r) code message)) \<and>
     field envelope ''id'' = Some (req_id r) \<and>
     (field envelope ''result'' = None) \<noteq> (field envelope ''error'' = None)"
proof -
  from handle_mcp_request_shape[of E r s] obtain envelope s' fx where
    h: "handle_mcp_request E r s = (Inr (Some envelope), s', fx)" and
    shape: "(\<exists>x. envelope = result_envelope (req_id r) x) \<or>
            (\<exists>code message. envelope = error_envelope (req_id r) code message)"
    by blast
  from shape have "field envelope ''id'' = Some (req_id r)"
    by (auto simp: field_result_envelope field_error_envelope)
  moreover from shape have "(field envelope ''result'' = None) \<noteq> (field envelope ''error'' = None)"
    by (auto simp: field_result_envelope field_error_envelope)
  ultimately show ?thesis
    using h shape by auto
qed


theorem router_returns_one_envelope_witness:
  "\<exists>envelope.
     fst (handle_mcp_request example_env initialize_request (SSESession_init ''s1'')) =
       Inr (Some envelope) \<and>
     ((\<exists>x. envelope = result_envelope (req_id initialize_request) x) \<or>
      (\<exists>code message. envelope = error_envelope (req_id initialize_request) code message)) \<and>
     field envelope ''id'' = Some (req_id initialize_request) \<and>
     (field envelope ''result'' = None) \<noteq> (field envelope ''error'' = None)"
  by (rule router_returns_one_envelope)

text \<open>
  Claim C4. For a method name other than \<open>initialize\<close>, \<open>tools/list\<close> and
  \<open>tools/call\<close>, the router returns an error envelope with code \<open>-32601\<close> whose message
  contains the method name; the session is unchanged and there is no effect at all, so
  no tool handler is called (no \<open>HandlerCall\<close>) and nothing is sent.
\<close>

theorem unknown_method_not_found:
  assumes "req_method r \<noteq> ''initialize''"
      and "req_method r \<noteq> ''tools/list''"
      and "req_method r \<noteq> ''tools/call''"
  shows "\<exists>envelope.
           handle_mcp_request E r s = (Inr (Some envelope), s, []) \<and>
           error_code envelope = Some (JInt (- 32601)) \<and>
           (\<exists>m. error_message envelope = Some (JStr m) \<and> sublist (req_method r) m) \<and>
           field envelope ''id'' = Some (req_id r) \<and>
           field envelope ''result'' = None"
proof -
  let ?m = "''Method not found: '' @ req_method r"
  let ?envelope = "error_envelope (req_id r) (- 32601) ?m"
  from assms have "handle_mcp_request E r s = (Inr (Some ?envelope), s, [])"
    by (simp add: handle_mcp_request_def dispatch_def)
  moreover have "sublist (req_method r) ?m"
    by (rule suffix_imp_sublist, rule suffixI, rule refl)
  ultimately show ?thesis
    by (auto simp: error_code_envelope field_error_envelope)
qed


theorem unknown_method_not_found_witness:
  "(req_method ping_request \<noteq> ''initialize'' \<and>
    req_method ping_request \<noteq> ''tools/list'' \<and>
    req_method ping_request \<noteq> ''tools/call'') \<and>
   (\<exists>envelope.
      handle_mcp_request example_env ping_request (SSESession_init ''s1'') =
        (Inr (Some envelope), SSESession_init ''s1'', []) \<and>
      error_code envelope = Some (JInt (- 32601)) \<and>
      (\<exists>m. error_message envelope = Some (JStr m) \<and> sublist (req_method ping_request) m) \<and>
      field envelope ''id'' = Some (req_id ping_request) \<and>
      field envelope ''result'' = None)"
proof -
  have h1: "req_method ping_request \<noteq> ''initialize''"
    and h2: "req_method ping_request \<noteq> ''tools/list''"
    and h3: "req_method ping_request \<noteq> ''tools/call''"
    by (simp_all add: ping_request_def)
  from h1 h2 h3 unknown_method_not_found[OF h1 h2 h3, of example_env "SSESession_init ''s1''"]
  show ?thesis
    by blast
qed


lemma tools_lookup_None: "k \<noteq> KStr ''send_message'' \<Longrightarrow> tools_lookup k = None"
  by (cases k) (simp_all add: TOOLS_def)

text \<open>
  Claim C3, as the code has it. A \<open>tools/call\<close> whose \<open>name\<close> is hashable (absent,
  \<open>null\<close>, a boolean, a number or a string) and is not \<open>send_message\<close> gets the error
  envelope with code \<open>400\<close>, the status code of the \<open>HTTPException\<close> that
  \<open>handle_tools_call\<close> raised. With the bot initialised, a \<open>tools/call\<close> of
  \<open>send_message\<close> whose \<open>arguments\<close> are a mapping (or absent) without a \<open>message\<close> key
  gets the envelope with code \<open>400\<close> and the message of the missing parameter; a
  delivery that fails gets code \<open>500\<close>. Neither is \<open>-32603\<close>.
\<close>

theorem tool_call_application_errors:
  "(req_method r = ''tools/call'' \<and>
    py_hash (py_get (params_or_empty (req_params r)) ''name'') = Inr k \<and>
    k \<noteq> KStr ''send_message'' \<longrightarrow>
      handle_mcp_request E r s =
        (Inr (Some (error_envelope (req_id r) 400 (''Unknown tool: '' @ key_str k))), s, [])) \<and>
   (req_method r = ''tools/call'' \<and>
    py_get (params_or_empty (req_params r)) ''name'' = JStr ''send_message'' \<and>
    py_get_default (params_or_empty (req_params r)) ''arguments'' (JObj []) = JObj d \<and>
    telegram_bot E = Some send \<and>
    map_of d ''message'' = None \<longrightarrow>
      handle_mcp_request E r s =
        (Inr (Some (error_envelope (req_id r) 400 ''Missing 'message' parameter'')), s,
         [HandlerCall ''send_message'' (JObj d)])) \<and>
   (req_method r = ''tools/call'' \<and>
    py_get (params_or_empty (req_params r)) ''name'' = JStr ''send_message'' \<and>
    py_get_default (params_or_empty (req_params r)) ''arguments'' (JObj []) = JObj d \<and>
    telegram_bot E = Some send \<and>
    truthy (py_get d ''message'') \<and>
    send \<lparr>sc_chat_id = telegram_chat_id E, sc_text = py_get d ''message'',
          sc_parse_mode = (if py_get d ''parse_mode'' = JStr ''MarkdownV2''
                           then ''MarkdownV2'' else ''Markdown'')\<rparr> = Inl e \<longrightarrow>
      fst (handle_mcp_request E r s) =
        Inr (Some (error_envelope (req_id r) 500 (''Failed to send message: '' @ e))))"
proof (intro conjI impI)
  assume a: "req_method r = ''tools/call'' \<and>
    py_hash (py_get (params_or_empty (req_params r)) ''name'') = Inr k \<and>
    k \<noteq> KStr ''send_message''"
  then have "tools_lookup k = None"
    by (simp add: tools_lookup_None)
  with a show "handle_mcp_request E r s =
        (Inr (Some (error_envelope (req_id r) 400 (''Unknown tool: '' @ key_str k))), s, [])"
    by (simp add: handle_mcp_request_def dispatch_def handle_tools_call_def)
next
  assume a: "req_method r = ''tools/call'' \<and>
    py_get (params_or_empty (req_params r)) ''name'' = JStr ''send_message'' \<and>
    py_get_default (params_or_empty (req_params r)) ''arguments'' (JObj []) = JObj d \<and>
    telegram_bot E = Some send \<and>
    map_of d ''message'' = None"
  then have "handle_send_message E (JObj d) =
      (Inl (HTTPException 400 ''Missing 'message' parameter''), [])"
    by (simp add: handle_send_message_def py_get_def)
  with a show "handle_mcp_request E r s =
        (Inr (Some (error_envelope (req_id r) 400 ''Missing 'message' parameter'')), s,
         [HandlerCall ''send_message'' (JObj d)])"
    by (simp add: handle_mcp_request_def dispatch_def handle_tools_call_def TOOLS_def)
next
  assume a: "req_method r = ''tools/call'' \<and>
    py_get (params_or_empty (req_params r)) ''name'' = JStr ''send_message'' \<and>
    py_get_default (params_or_empty (req_params r)) ''arguments'' (JObj []) = JObj d \<and>
    telegram_bot E = Some send \<and>
    truthy (py_get d ''message'') \<and>
    send \<lparr>sc_chat_id = telegram_chat_id E, sc_text = py_get d ''message'',
          sc_parse_mode = (if py_get d ''parse_mode'' = JStr ''MarkdownV2''
                           then ''MarkdownV2'' else ''Markdown'')\<rparr> = Inl e"
  then obtain fx where "handle_send_message E (JObj d) =
      (Inl (HTTPException 500 (''Failed to send message: '' @ e)), fx)"
    by (simp add: handle_send_message_def Let_def)
  with a show "fst (handle_mcp_request E r s) =
        Inr (Some (error_envelope (req_id r) 500 (''Failed to send message: '' @ e)))"
    by (simp add: handle_mcp_request_def dispatch_def handle_tools_call_def TOOLS_def)
qed

theorem tool_call_application_errors_witness:
  "handle_mcp_request example_env (tool_call (JInt 1) [(''name'', JStr ''no_such_tool'')])
       (SSESession_init ''s1'') =
     (Inr (Some (error_envelope (JInt 1) 400 ''Unknown tool: no_such_tool'')),
      SSESession_init ''s1'', []) \<and>
   handle_mcp_request example_env
       (tool_call (JInt 2) [(''name'', JStr ''send_message''), (''arguments'', JObj [])])
       (SSESession_init ''s1'') =
     (Inr (Some (error_envelope (JInt 2) 400 ''Missing 'message' parameter'')),
      SSESession_init ''s1'', [HandlerCall ''send_message'' (JObj [])]) \<and>
   fst (handle_mcp_request failing_env
       (tool_call (JInt 2) [(''name'', JStr ''send_message''),
                            (''arguments'', JObj [(''message'', JStr ''hi'')])])
       (SSESession_init ''s1'')) =
     Inr (Some (error_envelope (JInt 2) 500 ''Failed to send message: Timed out''))"
proof -
  let ?r1 = "tool_call (JInt 1) [(''name'', JStr ''no_such_tool'')]"
  let ?r2 = "tool_call (JInt 2) [(''name'', JStr ''send_message''), (''arguments'', JObj [])]"
  let ?r3 = "tool_call (JInt 2) [(''name'', JStr ''send_message''),
                            (''arguments'', JObj [(''message'', JStr ''hi'')])]"
  have h1: "req_method ?r1 = ''tools/call'' \<and>
    py_hash (py_get (params_or_empty (req_params ?r1)) ''name'') = Inr (KStr ''no_such_tool'') \<and>
    KStr ''no_such_tool'' \<noteq> KStr ''send_message''"
    by (simp add: tool_call_def params_or_empty_def py_get_def)
  have h2: "req_method ?r2 = ''tools/call'' \<and>
    py_get (params_or_empty (req_params ?r2)) ''name'' = JStr ''send_message'' \<and>
    py_get_default (params_or_empty (req_params ?r2)) ''arguments'' (JObj []) = JObj [] \<and>
    telegram_bot example_env = Some example_bot \<and>
    map_of ([] :: (string \<times> json) list) ''message'' = None"
    by (simp add: tool_call_def params_or_empty_def py_get_def py_get_default_def example_env_def)
  have h3: "req_method ?r3 = ''tools/call'' \<and>
    py_get (params_or_empty (req_params ?r3)) ''name'' = JStr ''send_message'' \<and>
    py_get_default (params_or_empty (req_params ?r3)) ''arguments'' (JObj []) =
      JObj [(''message'', JStr ''hi'')] \<and>
    telegram_bot failing_env = Some failing_bot \<and>
    truthy (py_get [(''message'', JStr ''hi'')] ''message'') \<and>
    failing_bot \<lparr>sc_chat_id = telegram_chat_id failing_env,
          sc_text = py_get [(''message'', JStr ''hi'')] ''message'',
          sc_parse_mode = (if py_get [(''message'', JStr ''hi'')] ''parse_mode'' = JStr ''MarkdownV2''
                           then ''MarkdownV2'' else ''Markdown'')\<rparr> = Inl ''Timed out''"
    by (simp add: tool_call_def params_or_empty_def py_get_def py_get_default_def example_env_def
        failing_env_def failing_bot_def)
  from tool_call_application_errors[where r = ?r1 and k = "KStr ''no_such_tool''" and E = example_env
      and s = "SSESession_init ''s1''"]
    h1
  have c1: "handle_mcp_request example_env ?r1 (SSESession_init ''s1'') =
     (Inr (Some (error_envelope (req_id ?r1) 400 (''Unknown tool: '' @ key_str (KStr ''no_such_tool'')))),
      SSESession_init ''s1'', [])"
    by blast
  from tool_call_application_errors[where r = ?r2 and d = "[]" and E = example_env
      and send = example_bot and s = "SSESession_init ''s1''"]
    h2
  have c2: "handle_mcp_request example_env ?r2 (SSESession_init ''s1'') =
     (Inr (Some (error_envelope (req_id ?r2) 400 ''Missing 'message' parameter'')),
      SSESession_init ''s1'', [HandlerCall ''send_message'' (JObj [])])"
    by blast
  from tool_call_application_errors[where r = ?r3 and d = "[(''message'', JStr ''hi'')]"
      and E = failing_env and send = failing_bot and e = "''Timed out''"
      and s = "SSESession_init ''s1''"] h3
  have c3: "fst (handle_mcp_request failing_env ?r3 (SSESession_init ''s1'')) =
     Inr (Some (error_envelope (req_id ?r3) 500 (''Failed to send message: '' @ ''Timed out'')))"
    by blast
  from c1 c2 c3 show ?thesis
    by (simp add: tool_call_def)
qed

text \<open>
  The claim as stated fails: a \<open>name\<close> that is a list is not in the registry, yet the
  lookup raises \<open>TypeError\<close> and the router answers \<open>-32603\<close>; and a call of the send
  tool with \<open>arguments: null\<close> has no \<open>message\<close>, yet the handler raises
  \<open>AttributeError\<close> and the router answers \<open>-32603\<close>.
\<close>

theorem tool_call_internal_error_counterexample:
  "fst (handle_mcp_request example_env (tool_call (JInt 3) [(''name'', JList [])])
          (SSESession_init ''s1'')) =
     Inr (Some (error_envelope (JInt 3) (- 32603)
                  (''Internal error: unhashable type: '' @ squote ''list''))) \<and>
   fst (handle_mcp_request example_env
          (tool_call (JInt 4) [(''name'', JStr ''send_message''), (''arguments'', JNull)])
          (SSESession_init ''s1'')) =
     Inr (Some (error_envelope (JInt 4) (- 32603)
                  (''Internal error: '' @ squote ''NoneType'' @ '' object has no attribute ''
                   @ squote ''get'')))"
  by (simp add: handle_mcp_request_def dispatch_def handle_tools_call_def TOOLS_def tool_call_def
      params_or_empty_def py_get_def py_get_default_def handle_send_message_def example_env_def)

section \<open>Properties of the send tool\<close>

text \<open>
  Claim C9. For every arguments mapping, whatever \<open>handle_send_message\<close> hands to the
  Telegram client has parse mode \<open>MarkdownV2\<close> if and only if the value under
  \<open>parse_mode\<close> is the string \<open>MarkdownV2\<close>, and \<open>Markdown\<close> otherwise; \<open>HTML\<close> is
  never requested. (Nothing is handed over when the bot is not initialised or the
  message is falsy.)
\<close>

theorem parse_mode_forwarded:
  "sends (snd (handle_send_message E (JObj d))) =
     (if telegram_bot E \<noteq> None \<and> truthy (py_get d ''message'')
      then [\<lparr>sc_chat_id = telegram_chat_id E, sc_text = py_get d ''message'',
             sc_parse_mode =
               (if py_get d ''parse_mode'' = JStr ''MarkdownV2''
                then ''MarkdownV2'' else ''Markdown'')\<rparr>]
      else []) \<and>
   list_all (\<lambda>c. (sc_parse_mode c = ''MarkdownV2'') = (py_get d ''parse_mode'' = JStr ''MarkdownV2''))
     (sends (snd (handle_send_message E (JObj d)))) \<and>
   list_all (\<lambda>c. sc_parse_mode c \<noteq> ''HTML'') (sends (snd (handle_send_message E (JObj d))))"
  by (auto simp: handle_send_message_def Let_def split: option.splits sum.splits)

theorem parse_mode_forwarded_witness:
  "sends (snd (handle_send_message example_env
            (JObj [(''message'', JStr ''hi''), (''parse_mode'', JStr ''HTML'')]))) =
     [\<lparr>sc_chat_id = ''42'', sc_text = JStr ''hi'', sc_parse_mode = ''Markdown''\<rparr>]"
  using parse_mode_forwarded[of example_env
      "[(''message'', JStr ''hi''), (''parse_mode'', JStr ''HTML'')]"]
  by (simp add: example_env_def py_get_def)

text \<open>
  Claim C10. With the bot initialised, \<open>handle_send_message\<close> raises the \<open>400\<close> error of
  the missing \<open>message\<close> exactly when the value under \<open>message\<close> is falsy: absent or
  \<open>null\<close>, \<open>false\<close>, \<open>0\<close>, the empty string, an empty list or mapping. The empty string
  is falsy although the advertised schema validates it, so a \<open>tools/call\<close> with an
  empty \<open>message\<close> ends in the error envelope with code \<open>400\<close> and nothing is sent.
\<close>

theorem falsy_message_is_missing:
  "(telegram_bot E \<noteq> None \<and> \<not> truthy (py_get d ''message'') \<longrightarrow>
      handle_send_message E (JObj d) =
        (Inl (HTTPException 400 ''Missing 'message' parameter''), [])) \<and>
   (telegram_bot E \<noteq> None \<and> truthy (py_get d ''message'') \<longrightarrow>
      fst (handle_send_message E (JObj d)) \<noteq> Inl (HTTPException 400 ''Missing 'message' parameter'')) \<and>
   \<not> truthy (JStr '''') \<and>
   validates inputSchema (JObj [(''message'', JStr '''')]) \<and>
   (telegram_bot E \<noteq> None \<and> req_method r = ''tools/call'' \<and>
    req_params r = Some [(''name'', JStr ''send_message''),
                         (''arguments'', JObj [(''message'', JStr '''')])] \<longrightarrow>
      handle_mcp_request E r s =
        (Inr (Some (error_envelope (req_id r) 400 ''Missing 'message' parameter'')), s,
         [HandlerCall ''send_message'' (JObj [(''message'', JStr '''')])]))"
  apply (intro conjI impI)
      apply (auto simp: handle_send_message_def Let_def split: option.splits sum.splits)[1]
     apply (auto simp: handle_send_message_def Let_def split: option.splits sum.splits)[1]
    apply simp
   apply (simp add: inputSchema_def)
  apply (auto simp: handle_mcp_request_def dispatch_def handle_tools_call_def params_or_empty_def
      py_get_def py_get_default_def TOOLS_def handle_send_message_def Let_def split: option.splits)
  done

theorem falsy_message_is_missing_witness:
  "(telegram_bot example_env \<noteq> None \<and>
    \<not> truthy (py_get [(''message'', JStr []), (''parse_mode'', JStr ''HTML'')] ''message'')) \<and>
   handle_send_message example_env
     (JObj [(''message'', JStr []), (''parse_mode'', JStr ''HTML'')]) =
     (Inl (HTTPException 400 ''Missing 'message' parameter''), [])"
proof -
  have h: "telegram_bot example_env \<noteq> None \<and>
    \<not> truthy (py_get [(''message'', JStr []), (''parse_mode'', JStr ''HTML'')] ''message'')"
    by (simp add: example_env_def py_get_def)
  from falsy_message_is_missing[where E = example_env
      and d = "[(''message'', JStr []), (''parse_mode'', JStr ''HTML'')]"] h
  show ?thesis
    by blast
qed

section \<open>Discovery against invocation\<close>

lemma type_ok_string: "type_ok ''string'' v \<longleftrightarrow> (\<exists>s. v = JStr s)"
  by (cases v) simp_all

lemma discovered_send_message: "discovered_schema ''send_message'' = Some inputSchema"
  by (simp add: discovered_schema_def handle_tools_list_def TOOLS_def py_get_def)

lemma validates_inputSchema:
  "validates inputSchema args \<longleftrightarrow>
     (\<exists>d. args = JObj d \<and> (\<exists>s. map_of d ''message'' = Some (JStr s)) \<and>
          map_of d ''parse_mode'' \<in>
            {None, Some (JStr ''Markdown''), Some (JStr ''MarkdownV2''), Some (JStr ''HTML'')})"
proof (cases args)
  case (JObj d)
  then show ?thesis
    by (auto simp add: inputSchema_def type_ok_string split: option.splits json.splits)
qed (simp_all add: inputSchema_def)

lemma accepts_iff:
  "telegram_bot E \<noteq> None \<Longrightarrow>
     accepts E args \<longleftrightarrow> (\<exists>d. args = JObj d \<and> truthy (py_get d ''message''))"
  by (cases args)
     (auto simp: accepts_def handle_send_message_def Let_def split: option.splits sum.splits)

text \<open>
  Claim C2, as the code has it. The schema that \<open>tools/list\<close> returns for the send tool
  is \<open>inputSchema\<close>; it validates exactly the mappings whose \<open>message\<close> is a string and
  whose \<open>parse_mode\<close>, when present, is one of \<open>Markdown\<close>, \<open>MarkdownV2\<close>, \<open>HTML\<close>. With
  the bot initialised, \<open>handle_send_message\<close> accepts exactly the mappings whose
  \<open>message\<close> is truthy, whatever its type and whatever stands under \<open>parse_mode\<close>. So
  every argument set the schema validates is accepted unless its message is the empty
  string.
\<close>

theorem schema_and_handler_acceptance:
  "discovered_schema ''send_message'' = Some inputSchema \<and>
   (validates inputSchema args \<longleftrightarrow>
      (\<exists>d. args = JObj d \<and> (\<exists>s. map_of d ''message'' = Some (JStr s)) \<and>
           map_of d ''parse_mode'' \<in>
             {None, Some (JStr ''Markdown''), Some (JStr ''MarkdownV2''), Some (JStr ''HTML'')})) \<and>
   (telegram_bot E \<noteq> None \<longrightarrow>
      (accepts E args \<longleftrightarrow> (\<exists>d. args = JObj d \<and> truthy (py_get d ''message'')))) \<and>
   (telegram_bot E \<noteq> None \<and> validates inputSchema args \<and>
    field args ''message'' \<noteq> Some (JStr '''') \<longrightarrow> accepts E args)"
proof (intro conjI impI)
  show "discovered_schema ''send_message'' = Some inputSchema"
    by (rule discovered_send_message)
  show "validates inputSchema args \<longleftrightarrow>
      (\<exists>d. args = JObj d \<and> (\<exists>s. map_of d ''message'' = Some (JStr s)) \<and>
           map_of d ''parse_mode'' \<in>
             {None, Some (JStr ''Markdown''), Some (JStr ''MarkdownV2''), Some (JStr ''HTML'')})"
    by (rule validates_inputSchema)
  show "accepts E args \<longleftrightarrow> (\<exists>d. args = JObj d \<and> truthy (py_get d ''message''))"
    if "telegram_bot E \<noteq> None"
    using that by (rule accepts_iff)
  show "accepts E args"
    if h: "telegram_bot E \<noteq> None \<and> validates inputSchema args \<and>
           field args ''message'' \<noteq> Some (JStr '''')"
  proof -
    from h obtain d s where "args = JObj d" "map_of d ''message'' = Some (JStr s)"
      by (auto simp: validates_inputSchema)
    moreover with h have "s \<noteq> []"
      by auto
    ultimately have "\<exists>d. args = JObj d \<and> truthy (py_get d ''message'')"
      by (simp add: py_get_def)
    with h show ?thesis
      by (simp add: accepts_iff)
  qed
qed

theorem schema_and_handler_acceptance_witness:
  "(validates inputSchema (JObj [(''message'', JStr ''hi''), (''parse_mode'', JStr ''HTML'')]) \<and>
    telegram_bot example_env \<noteq> None \<and>
    field (JObj [(''message'', JStr ''hi''), (''parse_mode'', JStr ''HTML'')]) ''message''
      \<noteq> Some (JStr '''')) \<and>
   accepts example_env (JObj [(''message'', JStr ''hi''), (''parse_mode'', JStr ''HTML'')])"
proof -
  let ?args = "JObj [(''message'', JStr ''hi''), (''parse_mode'', JStr ''HTML'')]"
  have h: "validates inputSchema ?args \<and> telegram_bot example_env \<noteq> None \<and>
           field ?args ''message'' \<noteq> Some (JStr '''')"
    by (simp add: inputSchema_def example_env_def)
  from schema_and_handler_acceptance[of ?args example_env] h show ?thesis
    by blast
qed

text \<open>
  The claim as stated fails in both directions: the handler accepts a \<open>parse_mode\<close>
  outside the enum and a \<open>message\<close> that is a number, which the schema refuses; and it
  refuses the empty message, which the schema validates.
\<close>

theorem schema_and_handler_differ_counterexample:
  "\<not> validates inputSchema (JObj [(''message'', JStr ''hi''), (''parse_mode'', JStr ''bogus'')]) \<and>
   accepts example_env (JObj [(''message'', JStr ''hi''), (''parse_mode'', JStr ''bogus'')]) \<and>
   \<not> validates inputSchema (JObj [(''message'', JInt 5)]) \<and>
   accepts example_env (JObj [(''message'', JInt 5)]) \<and>
   validates inputSchema (JObj [(''message'', JStr '''')]) \<and>
   \<not> accepts example_env (JObj [(''message'', JStr '''')])"
  by (simp add: inputSchema_def accepts_def handle_send_message_def example_env_def
      example_bot_def py_get_def Let_def)

section \<open>Properties of the call endpoint\<close>

lemma dispatch_session:
  "dispatch E r s = (res, s', fx) \<Longrightarrow> s' = s \<or> s' = s\<lparr>initialized := True\<rparr>"
  by (auto simp: dispatch_def handle_initialize_def handle_tools_list_def handle_tools_call_def
      Let_def split: if_splits prod.splits sum.splits option.splits)

lemma handle_mcp_request_session:
  "handle_mcp_request E r s = (res, s', fx) \<Longrightarrow> s' = s \<or> s' = s\<lparr>initialized := True\<rparr>"
proof -
  assume h: "handle_mcp_request E r s = (res, s', fx)"
  obtain res0 s0 fx0 where d: "dispatch E r s = (res0, s0, fx0)"
    by (cases "dispatch E r s") auto
  from h d have "s' = s0"
    by (auto simp: handle_mcp_request_def split: sum.splits exn.splits)
  with dispatch_session[OF d] show ?thesis
    by simp
qed

lemma truthy_envelope: "truthy (result_envelope i x)" "truthy (error_envelope i c m)"
  by (simp_all add: result_envelope_def error_envelope_def)


text \<open>
  Claim C1, as the code has it. For every call the endpoint handles on an open session,
  the router's envelope is made into an \<open>event: message\<close> frame and enqueued by the
  endpoint itself, with \<open>send_event\<close>, on the raw-event queue: appended when the queue
  holds fewer than 100 frames, dropped with a warning otherwise. The router leaves both
  queues as they were, and the endpoint never touches the notification queue.
\<close>

theorem endpoint_enqueues_response_directly:
  assumes "sessions sid = Some session"
      and "\<not> closed session"
      and "JSONRPCRequest_init E body = Inr request"
  shows "\<exists>envelope s' fx.
           handle_mcp_request E request session = (Inr (Some envelope), s', fx) \<and>
           event_queue s' = event_queue session \<and>
           notification_queue s' = notification_queue session \<and>
           message_endpoint E sessions sid (Inr body) =
             (if length (event_queue session) < 100
              then (Inr accepted,
                    sessions(sid \<mapsto>
                      s'\<lparr>event_queue := event_queue session @ [response_frame E envelope]\<rparr>),
                    fx)
              else (Inr accepted, sessions(sid \<mapsto> s'),
                    fx @ [Log WARNING (''Event queue full for session '' @ session_id session)]))"
proof -
  from handle_mcp_request_shape[of E request session] obtain envelope s' fx where
    h: "handle_mcp_request E request session = (Inr (Some envelope), s', fx)" and
    shape: "(\<exists>x. envelope = result_envelope (req_id request) x) \<or>
            (\<exists>code message. envelope = error_envelope (req_id request) code message)"
    by blast
  from shape have t: "truthy envelope"
    by (auto simp: truthy_envelope)
  from handle_mcp_request_session[OF h] have s': "s' = session \<or> s' = session\<lparr>initialized := True\<rparr>" .
  with assms(2) have open': "\<not> closed s'" and q: "event_queue s' = event_queue session"
    and n: "notification_queue s' = notification_queue session"
    and i: "session_id s' = session_id session"
    by auto
  have body: "message_endpoint_try E session (Inr body) =
      (case send_event s' (response_frame E envelope) of (sent, s'', fx') \<Rightarrow> (Inr accepted, s'', fx @ fx'))"
    using assms(3) h t by (simp add: message_endpoint_try_def response_frame_def)
  show ?thesis
  proof (cases "length (event_queue session) < 100")
    case True
    with open' q have "send_event s' (response_frame E envelope) =
        (True, s'\<lparr>event_queue := event_queue session @ [response_frame E envelope]\<rparr>, [])"
      by (simp add: send_event_room)
    with body assms(1,2) True h q n show ?thesis
      by (simp add: message_endpoint_def)
  next
    case False
    with open' q i have "send_event s' (response_frame E envelope) =
        (False, s', [Log WARNING (''Event queue full for session '' @ session_id session)])"
      by (simp add: send_event_full)
    with body assms(1,2) False h q n show ?thesis
      by (simp add: message_endpoint_def)
  qed
qed

theorem endpoint_enqueues_response_directly_witness:
  "([''s1'' \<mapsto> SSESession_init ''s1''] ''s1'' = Some (SSESession_init ''s1'') \<and>
    \<not> closed (SSESession_init ''s1'') \<and>
    JSONRPCRequest_init example_env initialize_body =
      Inr \<lparr>req_jsonrpc = ''2.0'', req_id = JInt 1, req_method = ''initialize'', req_params = None\<rparr>) \<and>
   (\<exists>envelope s' fx.
      handle_mcp_request example_env
        \<lparr>req_jsonrpc = ''2.0'', req_id = JInt 1, req_method = ''initialize'', req_params = None\<rparr>
        (SSESession_init ''s1'') = (Inr (Some envelope), s', fx) \<and>
      event_queue s' = event_queue (SSESession_init ''s1'') \<and>
      notification_queue s' = notification_queue (SSESession_init ''s1'') \<and>
      message_endpoint example_env [''s1'' \<mapsto> SSESession_init ''s1''] ''s1'' (Inr initialize_body) =
        (if length (event_queue (SSESession_init ''s1'')) < 100
         then (Inr accepted,
               [''s1'' \<mapsto> SSESession_init ''s1''](''s1'' \<mapsto>
                 s'\<lparr>event_queue := event_queue (SSESession_init ''s1'')
                                    @ [response_frame example_env envelope]\<rparr>),
               fx)
         else (Inr accepted, [''s1'' \<mapsto> SSESession_init ''s1''](''s1'' \<mapsto> s'),
               fx @ [Log WARNING (''Event queue full for session ''
                                  @ session_id (SSESession_init ''s1''))])))"
proof -
  have h1: "[''s1'' \<mapsto> SSESession_init ''s1''] ''s1'' = Some (SSESession_init ''s1'')"
    by simp
  have h2: "\<not> closed (SSESession_init ''s1'')"
    by (simp add: SSESession_init_def)
  have h3: "JSONRPCRequest_init example_env initialize_body =
      Inr \<lparr>req_jsonrpc = ''2.0'', req_id = JInt 1, req_method = ''initialize'', req_params = None\<rparr>"
    by (simp add: JSONRPCRequest_init_def initialize_body_def py_get_def)
  from h1 h2 h3
    endpoint_enqueues_response_directly[where sessions = "[''s1'' \<mapsto> SSESession_init ''s1'']"
      and sid = "''s1''", OF h1 h2 h3]
  show ?thesis
    by blast
qed

text \<open>
  The claim as stated fails: after an \<open>initialize\<close> call on a new session the
  notification queue is empty and the frame of the response is already on the raw-event
  queue, with no step of the relay loop in between.
\<close>

theorem response_bypasses_notification_queue_counterexample:
  "map_option notification_queue
     (fst (snd (message_endpoint example_env [''s1'' \<mapsto> SSESession_init ''s1''] ''s1''
                  (Inr initialize_body))) ''s1'') = Some [] \<and>
   map_option event_queue
     (fst (snd (message_endpoint example_env [''s1'' \<mapsto> SSESession_init ''s1''] ''s1''
                  (Inr initialize_body))) ''s1'') =
     Some [response_frame example_env
             (result_envelope (JInt 1)
                (JObj [(''protocolVersion'', JStr ''2024-11-05''),
                       (''capabilities'', JObj [(''tools'', JObj [])]),
                       (''serverInfo'',
                        JObj [(''name'', JStr ''telegram-mcp-server''),
                              (''version'', JStr ''1.0.0'')])]))]"
  by (simp add: message_endpoint_def message_endpoint_try_def JSONRPCRequest_init_def
      initialize_body_def py_get_def handle_mcp_request_def dispatch_def handle_initialize_def
      params_or_empty_def SSESession_init_def send_event_def put_nowait_def maxsize_def
      response_frame_def result_envelope_def)


section \<open>Properties of the event stream driver\<close>

text \<open>
  On every exit the \<open>finally\<close> block has run exactly once: the session is closed and
  out of the registry.
\<close>

lemma session_step_id: "session_id (fst (snd (session_step s op))) = session_id s"
  by (cases op) (simp_all add: send_event_def send_notification_def close_def split: option.splits)

lemma torn_down_step: "torn_down d \<Longrightarrow> torn_down (driver_step d x)"
proof (cases x)
  case Resume
  assume "torn_down d"
  then show ?thesis
    unfolding Resume
    by (cases "d_pc d")
       (auto simp: torn_down_def loop_head_def cleanup_def teardown_def close_def
          split: list.splits if_splits)
next
  case (Fail e)
  assume "torn_down d"
  then show ?thesis
    unfolding Fail
    by (cases "d_pc d")
       (auto simp: torn_down_def cleanup_def teardown_def logged_def close_def split: if_splits)
next
  case Cancel
  assume "torn_down d"
  then show ?thesis
    unfolding Cancel
    by (cases "d_pc d") (auto simp: torn_down_def teardown_def close_def split: if_splits)
next
  case (Other op)
  assume "torn_down d"
  then show ?thesis
    unfolding Other
    using session_step_closed[of "d_session d" op]
    by (auto simp: torn_down_def session_step_id split: if_splits)
qed

lemma torn_down_run: "torn_down d \<Longrightarrow> torn_down (driver_run d xs)"
  unfolding driver_run_def
  by (induction xs arbitrary: d) (simp_all add: torn_down_step)

lemma driver_step_id: "session_id (d_session (driver_step d x)) = session_id (d_session d)"
proof (cases x)
  case Resume
  then show ?thesis
    by (cases "d_pc d")
       (auto simp: loop_head_def cleanup_def teardown_def close_def split: list.splits)
next
  case (Fail e)
  then show ?thesis
    by (cases "d_pc d") (auto simp: cleanup_def teardown_def logged_def close_def)
next
  case Cancel
  then show ?thesis
    by (cases "d_pc d") (auto simp: teardown_def close_def)
next
  case (Other op)
  then show ?thesis
    by (simp add: session_step_id)
qed

lemma driver_run_id: "session_id (d_session (driver_run d xs)) = session_id (d_session d)"
  unfolding driver_run_def
  by (induction xs arbitrary: d) (simp_all add: driver_step_id)

lemma teardown_once:
  "d_pc (driver_run (sse_event_stream s base_url reg) xs) = Finished \<Longrightarrow>
     closed (d_session (driver_run (sse_event_stream s base_url reg) xs)) \<and>
     session_id s \<notin> d_registered (driver_run (sse_event_stream s base_url reg) xs) \<and>
     count_list (d_trace (driver_run (sse_event_stream s base_url reg) xs)) CloseSession = 1"
proof -
  let ?d = "driver_run (sse_event_stream s base_url reg) xs"
  assume fin: "d_pc ?d = Finished"
  have "torn_down (sse_event_stream s base_url reg)"
    by (simp add: torn_down_def sse_event_stream_def)
  then have "torn_down ?d"
    by (rule torn_down_run)
  moreover have "session_id (d_session ?d) = session_id s"
    by (simp add: driver_run_id sse_event_stream_def)
  ultimately show ?thesis
    using fin by (simp add: torn_down_def)
qed


text \<open>
  Claim C8 asks more: that on every exit the relay task is cancelled and awaited. The
  lines that do it stand after the wire loop, inside the \<open>try\<close>; a run that leaves the
  loop by itself passes them.
\<close>

lemma wire_loop_exit_cleans_up:
  "driver_run (sse_event_stream (SSESession_init ''s1'') ''http://host'' {''s1''})
       [Resume, Other Close, Resume, Resume, Resume] =
     \<lparr>d_pc = Finished,
      d_session = close (SSESession_init ''s1''),
      d_registered = {},
      d_trace = [Yield endpoint_frame, CreateTask, Yield '': keep-alive\<newline>\<newline>'',
                 CancelTask, AwaitTask, CloseSession, RemoveSession]\<rparr>"
  by (simp add: driver_run_def sse_event_stream_def loop_head_def teardown_def cleanup_def
      SSESession_init_def close_def endpoint_frame_def)

text \<open>
  Claim C8, at the disconnect. The client goes away while the driver waits on the queue:
  \<open>CancelledError\<close> is raised at the \<open>await\<close>, only the \<open>finally\<close> block runs, and the
  relay task that was created is neither cancelled nor awaited.
\<close>

theorem disconnect_skips_task_cleanup:
  "driver_run (sse_event_stream (SSESession_init ''s1'') ''http://host'' {''s1''}) [Resume, Cancel] =
     \<lparr>d_pc = Finished,
      d_session = close (SSESession_init ''s1''),
      d_registered = {},
      d_trace = [Yield endpoint_frame, CreateTask, CloseSession, RemoveSession]\<rparr>"
  by (simp add: driver_run_def sse_event_stream_def loop_head_def teardown_def SSESession_init_def
      close_def endpoint_frame_def)


end
